theory Spec2Isabelle
  imports Complex_Main
begin

section \<open>Data model of backend/server.py\<close>

text \<open>
  Python floats are modelled as \<^typ>\<open>real\<close>: the code only compares floats with
  literals and with each other, and divides two small integers. A literal such as
  \<^verbatim>\<open>0.3\<close> stands for the decimal it is written as. Python integers are
  \<^typ>\<open>int\<close>, \<^verbatim>\<open>datetime\<close> values are microseconds as \<^typ>\<open>int\<close>.
\<close>

datatype Platform = FACEBOOK | INSTAGRAM

datatype SentimentType = POSITIVE | NEGATIVE | NEUTRAL

datatype AlertType = SENTIMENT | VOLUME | RESPONSE_TIME

datatype AlertSeverity = LOW | MEDIUM | HIGH | CRITICAL

text \<open>The enums derive from \<^verbatim>\<open>str\<close>: each member is stored and compared as its string.\<close>

fun Platform_value :: "Platform \<Rightarrow> string" where
  "Platform_value FACEBOOK = ''facebook''"
| "Platform_value INSTAGRAM = ''instagram''"

fun SentimentType_value :: "SentimentType \<Rightarrow> string" where
  "SentimentType_value POSITIVE = ''positive''"
| "SentimentType_value NEGATIVE = ''negative''"
| "SentimentType_value NEUTRAL = ''neutral''"

fun AlertType_value :: "AlertType \<Rightarrow> string" where
  "AlertType_value SENTIMENT = ''sentiment''"
| "AlertType_value VOLUME = ''volume''"
| "AlertType_value RESPONSE_TIME = ''response_time''"

fun AlertSeverity_value :: "AlertSeverity \<Rightarrow> string" where
  "AlertSeverity_value LOW = ''low''"
| "AlertSeverity_value MEDIUM = ''medium''"
| "AlertSeverity_value HIGH = ''high''"
| "AlertSeverity_value CRITICAL = ''critical''"

text \<open>
  Values of stored documents. \<^verbatim>\<open>model.dict()\<close> yields a dictionary, kept here
  as an association list in field order and read with \<^const>\<open>map_of\<close>.
\<close>

datatype pyval =
    VNone
  | VBool bool
  | VInt int
  | VFloat real
  | VStr string
  | VDatetime int
  | VDict "(string \<times> pyval) list"

type_synonym doc = "(string \<times> pyval) list"

record CommentCreate =
  cc_brand_id :: string
  cc_platform :: Platform
  cc_platform_id :: string
  cc_content :: string
  cc_author_name :: string
  cc_author_id :: string
  cc_post_id :: string

record Comment =
  c_id :: string
  c_brand_id :: string
  c_platform :: Platform
  c_platform_id :: string
  c_content :: string
  c_author_name :: string
  c_author_id :: string
  c_post_id :: string
  c_created_at :: int
  c_sentiment_score :: real
  c_sentiment_type :: SentimentType
  c_needs_response :: bool
  c_has_response :: bool
  c_response_time :: "int option"
  c_priority :: int

record MentionCreate =
  mc_brand_id :: string
  mc_platform :: Platform
  mc_platform_id :: string
  mc_content :: string
  mc_author_name :: string
  mc_author_id :: string
  mc_url :: string
  mc_reach :: int
  mc_engagement :: int

record Mention =
  m_id :: string
  m_brand_id :: string
  m_platform :: Platform
  m_platform_id :: string
  m_content :: string
  m_author_name :: string
  m_author_id :: string
  m_url :: string
  m_created_at :: int
  m_sentiment_score :: real
  m_sentiment_type :: SentimentType
  m_reach :: int
  m_engagement :: int

record PostCreate =
  pc_brand_id :: string
  pc_platform :: Platform
  pc_platform_id :: string
  pc_content :: string
  pc_likes :: int
  pc_shares :: int
  pc_comments_count :: int

record Post =
  p_id :: string
  p_brand_id :: string
  p_platform :: Platform
  p_platform_id :: string
  p_content :: string
  p_created_at :: int
  p_likes :: int
  p_shares :: int
  p_comments_count :: int
  p_sentiment_score :: real
  p_sentiment_type :: SentimentType

record AlertCreate =
  ac_brand_id :: string
  ac_alert_type :: AlertType
  ac_severity :: AlertSeverity
  ac_title :: string
  ac_description :: string
  ac_data :: doc

record Alert =
  a_id :: string
  a_brand_id :: string
  a_alert_type :: AlertType
  a_severity :: AlertSeverity
  a_title :: string
  a_description :: string
  a_created_at :: int
  a_is_acknowledged :: bool
  a_acknowledged_at :: "int option"
  a_data :: doc

definition Comment_dict :: "Comment \<Rightarrow> doc" where
  "Comment_dict c =
     [(''id'', VStr (c_id c)),
      (''brand_id'', VStr (c_brand_id c)),
      (''platform'', VStr (Platform_value (c_platform c))),
      (''platform_id'', VStr (c_platform_id c)),
      (''content'', VStr (c_content c)),
      (''author_name'', VStr (c_author_name c)),
      (''author_id'', VStr (c_author_id c)),
      (''post_id'', VStr (c_post_id c)),
      (''created_at'', VDatetime (c_created_at c)),
      (''sentiment_score'', VFloat (c_sentiment_score c)),
      (''sentiment_type'', VStr (SentimentType_value (c_sentiment_type c))),
      (''needs_response'', VBool (c_needs_response c)),
      (''has_response'', VBool (c_has_response c)),
      (''response_time'', (case c_response_time c of None \<Rightarrow> VNone | Some n \<Rightarrow> VInt n)),
      (''priority'', VInt (c_priority c))]"

definition Mention_dict :: "Mention \<Rightarrow> doc" where
  "Mention_dict m =
     [(''id'', VStr (m_id m)),
      (''brand_id'', VStr (m_brand_id m)),
      (''platform'', VStr (Platform_value (m_platform m))),
      (''platform_id'', VStr (m_platform_id m)),
      (''content'', VStr (m_content m)),
      (''author_name'', VStr (m_author_name m)),
      (''author_id'', VStr (m_author_id m)),
      (''url'', VStr (m_url m)),
      (''created_at'', VDatetime (m_created_at m)),
      (''sentiment_score'', VFloat (m_sentiment_score m)),
      (''sentiment_type'', VStr (SentimentType_value (m_sentiment_type m))),
      (''reach'', VInt (m_reach m)),
      (''engagement'', VInt (m_engagement m))]"

definition Post_dict :: "Post \<Rightarrow> doc" where
  "Post_dict p =
     [(''id'', VStr (p_id p)),
      (''brand_id'', VStr (p_brand_id p)),
      (''platform'', VStr (Platform_value (p_platform p))),
      (''platform_id'', VStr (p_platform_id p)),
      (''content'', VStr (p_content p)),
      (''created_at'', VDatetime (p_created_at p)),
      (''likes'', VInt (p_likes p)),
      (''shares'', VInt (p_shares p)),
      (''comments_count'', VInt (p_comments_count p)),
      (''sentiment_score'', VFloat (p_sentiment_score p)),
      (''sentiment_type'', VStr (SentimentType_value (p_sentiment_type p)))]"

definition Alert_dict :: "Alert \<Rightarrow> doc" where
  "Alert_dict a =
     [(''id'', VStr (a_id a)),
      (''brand_id'', VStr (a_brand_id a)),
      (''alert_type'', VStr (AlertType_value (a_alert_type a))),
      (''severity'', VStr (AlertSeverity_value (a_severity a))),
      (''title'', VStr (a_title a)),
      (''description'', VStr (a_description a)),
      (''created_at'', VDatetime (a_created_at a)),
      (''is_acknowledged'', VBool (a_is_acknowledged a)),
      (''acknowledged_at'', (case a_acknowledged_at a of None \<Rightarrow> VNone | Some t \<Rightarrow> VDatetime t)),
      (''data'', VDict (a_data a))]"

section \<open>The environment and the database\<close>

text \<open>
  The collections of the MongoDB database are lists of documents in insertion order.
  What the code takes from outside is a parameter: the compound score of the VADER
  analyzer, the successive readings of \<^verbatim>\<open>datetime.utcnow()\<close>, the successive
  values of \<^verbatim>\<open>uuid.uuid4()\<close>, the rendering of a float by the format
  \<^verbatim>\<open>.1%\<close>, and which storage operations raise.
\<close>

datatype db_op =
    InsertComment | FindComments | CountComments
  | InsertMention | InsertPost | InsertAlert

datatype error = StorageUnavailable

record env =
  compound :: "string \<Rightarrow> real"
  utcnow_at :: "nat \<Rightarrow> int"
  uuid4_at :: "nat \<Rightarrow> string"
  format_percent :: "real \<Rightarrow> string"
  unavailable :: "db_op \<Rightarrow> bool"

record world =
  comments :: "doc list"
  mentions :: "doc list"
  posts :: "doc list"
  alerts :: "doc list"
  ticks :: nat
  drawn :: nat

definition utcnow :: "env \<Rightarrow> world \<Rightarrow> int \<times> world" where
  "utcnow e w = (utcnow_at e (ticks w), w\<lparr>ticks := Suc (ticks w)\<rparr>)"

definition uuid4 :: "env \<Rightarrow> world \<Rightarrow> string \<times> world" where
  "uuid4 e w = (uuid4_at e (drawn w), w\<lparr>drawn := Suc (drawn w)\<rparr>)"

definition timedelta_hours :: "int \<Rightarrow> int" where
  "timedelta_hours n = n * 3600000000"

definition comments_insert_one :: "env \<Rightarrow> doc \<Rightarrow> world \<Rightarrow> (error + unit) \<times> world" where
  "comments_insert_one e d w =
     (if unavailable e InsertComment then (Inl StorageUnavailable, w)
      else (Inr (), w\<lparr>comments := comments w @ [d]\<rparr>))"

definition mentions_insert_one :: "env \<Rightarrow> doc \<Rightarrow> world \<Rightarrow> (error + unit) \<times> world" where
  "mentions_insert_one e d w =
     (if unavailable e InsertMention then (Inl StorageUnavailable, w)
      else (Inr (), w\<lparr>mentions := mentions w @ [d]\<rparr>))"

definition posts_insert_one :: "env \<Rightarrow> doc \<Rightarrow> world \<Rightarrow> (error + unit) \<times> world" where
  "posts_insert_one e d w =
     (if unavailable e InsertPost then (Inl StorageUnavailable, w)
      else (Inr (), w\<lparr>posts := posts w @ [d]\<rparr>))"

definition alerts_insert_one :: "env \<Rightarrow> doc \<Rightarrow> world \<Rightarrow> (error + unit) \<times> world" where
  "alerts_insert_one e d w =
     (if unavailable e InsertAlert then (Inl StorageUnavailable, w)
      else (Inr (), w\<lparr>alerts := alerts w @ [d]\<rparr>))"

text \<open>
  The query \<^verbatim>\<open>{"brand_id": b, "created_at": {"$gte": t}}\<close> and the query with
  \<^verbatim>\<open>{"$gte": t1, "$lt": t2}\<close>, as predicates on a document.
\<close>

definition query_gte :: "string \<Rightarrow> int \<Rightarrow> doc \<Rightarrow> bool" where
  "query_gte brand_id t d =
     (map_of d ''brand_id'' = Some (VStr brand_id)
      \<and> (case map_of d ''created_at'' of Some (VDatetime c) \<Rightarrow> t \<le> c | _ \<Rightarrow> False))"

definition query_gte_lt :: "string \<Rightarrow> int \<Rightarrow> int \<Rightarrow> doc \<Rightarrow> bool" where
  "query_gte_lt brand_id t1 t2 d =
     (map_of d ''brand_id'' = Some (VStr brand_id)
      \<and> (case map_of d ''created_at'' of Some (VDatetime c) \<Rightarrow> t1 \<le> c \<and> c < t2 | _ \<Rightarrow> False))"

text \<open>\<^verbatim>\<open>db.comments.find(q).to_list(n)\<close>: at most the first \<open>n\<close> matching documents.\<close>

definition comments_find_to_list :: "env \<Rightarrow> (doc \<Rightarrow> bool) \<Rightarrow> nat \<Rightarrow> world \<Rightarrow> error + doc list" where
  "comments_find_to_list e q n w =
     (if unavailable e FindComments then Inl StorageUnavailable
      else Inr (take n (filter q (comments w))))"

definition comments_count_documents :: "env \<Rightarrow> (doc \<Rightarrow> bool) \<Rightarrow> world \<Rightarrow> error + int" where
  "comments_count_documents e q w =
     (if unavailable e CountComments then Inl StorageUnavailable
      else Inr (int (length (filter q (comments w)))))"

section \<open>Sentiment analysis functions\<close>

text \<open>
  \<^verbatim>\<open>analyze_sentiment\<close> reads the compound score of the VADER analyzer, a library
  outside the repository: the score function is the field \<open>compound\<close> of the environment.
\<close>

definition analyze_sentiment :: "env \<Rightarrow> string \<Rightarrow> real \<times> SentimentType" where
  "analyze_sentiment e text =
     (let compound_score = compound e text;
          sentiment_type =
            (if compound_score \<ge> 0.05 then POSITIVE
             else if compound_score \<le> - 0.05 then NEGATIVE
             else NEUTRAL)
      in (compound_score, sentiment_type))"

definition calculate_priority :: "real \<Rightarrow> int \<Rightarrow> int" where
  "calculate_priority sentiment_score engagement =
     (let priority = 0;
          priority =
            (if sentiment_score \<le> - 0.5 then priority + 5
             else if sentiment_score \<le> - 0.1 then priority + 3
             else if sentiment_score \<ge> 0.5 then priority + 1
             else priority);
          priority =
            (if engagement > 100 then priority + 2
             else if engagement > 50 then priority + 1
             else priority)
      in min priority 5)"

section \<open>Alert system functions\<close>

text \<open>
  \<^verbatim>\<open>create_alert\<close> builds the \<^verbatim>\<open>Alert\<close> from the \<^verbatim>\<open>AlertCreate\<close>
  (the default factories draw an identifier, then read the clock) and inserts its
  dictionary into \<^verbatim>\<open>db.alerts\<close>. An exception of the storage leaves the function at
  once: the world reached so far is returned with the error.
\<close>

definition create_alert :: "env \<Rightarrow> AlertCreate \<Rightarrow> world \<Rightarrow> (error + Alert) \<times> world" where
  "create_alert e alert_data w0 =
     (let (i, w1) = uuid4 e w0;
          (t, w2) = utcnow e w1;
          alert = \<lparr>a_id = i,
                   a_brand_id = ac_brand_id alert_data,
                   a_alert_type = ac_alert_type alert_data,
                   a_severity = ac_severity alert_data,
                   a_title = ac_title alert_data,
                   a_description = ac_description alert_data,
                   a_created_at = t,
                   a_is_acknowledged = False,
                   a_acknowledged_at = None,
                   a_data = ac_data alert_data\<rparr>
      in case alerts_insert_one e (Alert_dict alert) w2 of
           (Inl err, w3) \<Rightarrow> (Inl err, w3)
         | (Inr _, w3) \<Rightarrow> (Inr alert, w3))"

definition check_sentiment_alerts :: "env \<Rightarrow> string \<Rightarrow> world \<Rightarrow> (error + unit) \<times> world" where
  "check_sentiment_alerts e brand_id w0 =
     (let (now, w1) = utcnow e w0;
          two_hours_ago = now - timedelta_hours 2
      in case comments_find_to_list e (query_gte brand_id two_hours_ago) 1000 w1 of
           Inl err \<Rightarrow> (Inl err, w1)
         | Inr recent_comments \<Rightarrow>
             if recent_comments = [] then (Inr (), w1)
             else
               (let negative_comments =
                      filter (\<lambda>c. map_of c ''sentiment_type'' = Some (VStr ''negative''))
                        recent_comments;
                    negative_ratio =
                      real (length negative_comments) / real (length recent_comments)
                in if negative_ratio > 0.3 then
                     (let alert =
                        \<lparr>ac_brand_id = brand_id,
                         ac_alert_type = SENTIMENT,
                         ac_severity = (if negative_ratio > 0.5 then HIGH else MEDIUM),
                         ac_title = ''High Negative Sentiment Detected'',
                         ac_description =
                           ''Negative sentiment ratio: '' @ format_percent e negative_ratio
                             @ '' in the last 2 hours'',
                         ac_data =
                           [(''negative_ratio'', VFloat negative_ratio),
                            (''total_comments'', VInt (int (length recent_comments)))]\<rparr>
                      in case create_alert e alert w1 of
                           (Inl err, w2) \<Rightarrow> (Inl err, w2)
                         | (Inr _, w2) \<Rightarrow> (Inr (), w2))
                   else (Inr (), w1)))"

definition check_volume_alerts :: "env \<Rightarrow> string \<Rightarrow> world \<Rightarrow> (error + unit) \<times> world" where
  "check_volume_alerts e brand_id w0 =
     (let (now1, w1) = utcnow e w0;
          one_hour_ago = now1 - timedelta_hours 1;
          (now2, w2) = utcnow e w1;
          two_hours_ago = now2 - timedelta_hours 2
      in case comments_count_documents e (query_gte brand_id one_hour_ago) w2 of
           Inl err \<Rightarrow> (Inl err, w2)
         | Inr current_hour_count \<Rightarrow>
            (case comments_count_documents e
                    (query_gte_lt brand_id two_hours_ago one_hour_ago) w2 of
               Inl err \<Rightarrow> (Inl err, w2)
             | Inr previous_hour_count \<Rightarrow>
                 if previous_hour_count > 0 then
                   (let volume_increase =
                          real_of_int (current_hour_count - previous_hour_count)
                            / real_of_int previous_hour_count
                    in if volume_increase > 2.0 then
                         (let alert =
                            \<lparr>ac_brand_id = brand_id,
                             ac_alert_type = VOLUME,
                             ac_severity = HIGH,
                             ac_title = ''Unusual Activity Volume'',
                             ac_description =
                               ''Comment volume increased by '' @ format_percent e volume_increase
                                 @ '' in the last hour'',
                             ac_data =
                               [(''volume_increase'', VFloat volume_increase),
                                (''current_count'', VInt current_hour_count)]\<rparr>
                          in case create_alert e alert w2 of
                               (Inl err, w3) \<Rightarrow> (Inl err, w3)
                             | (Inr _, w3) \<Rightarrow> (Inr (), w3))
                       else (Inr (), w2))
                 else (Inr (), w2)))"

section \<open>API routes that ingest events\<close>

definition create_comment :: "env \<Rightarrow> CommentCreate \<Rightarrow> world \<Rightarrow> (error + Comment) \<times> world" where
  "create_comment e comment_data w0 =
     (let (sentiment_score, sentiment_type) = analyze_sentiment e (cc_content comment_data);
          priority = calculate_priority sentiment_score 0;
          needs_response = (sentiment_score < - 0.1 \<or> priority \<ge> 3);
          (i, w1) = uuid4 e w0;
          (t, w2) = utcnow e w1;
          comment = \<lparr>c_id = i,
                     c_brand_id = cc_brand_id comment_data,
                     c_platform = cc_platform comment_data,
                     c_platform_id = cc_platform_id comment_data,
                     c_content = cc_content comment_data,
                     c_author_name = cc_author_name comment_data,
                     c_author_id = cc_author_id comment_data,
                     c_post_id = cc_post_id comment_data,
                     c_created_at = t,
                     c_sentiment_score = sentiment_score,
                     c_sentiment_type = sentiment_type,
                     c_needs_response = needs_response,
                     c_has_response = False,
                     c_response_time = None,
                     c_priority = priority\<rparr>
      in case comments_insert_one e (Comment_dict comment) w2 of
           (Inl err, w3) \<Rightarrow> (Inl err, w3)
         | (Inr _, w3) \<Rightarrow>
            (case check_sentiment_alerts e (cc_brand_id comment_data) w3 of
               (Inl err, w4) \<Rightarrow> (Inl err, w4)
             | (Inr _, w4) \<Rightarrow>
                (case check_volume_alerts e (cc_brand_id comment_data) w4 of
                   (Inl err, w5) \<Rightarrow> (Inl err, w5)
                 | (Inr _, w5) \<Rightarrow> (Inr comment, w5))))"

definition create_mention :: "env \<Rightarrow> MentionCreate \<Rightarrow> world \<Rightarrow> (error + Mention) \<times> world" where
  "create_mention e mention_data w0 =
     (let (sentiment_score, sentiment_type) = analyze_sentiment e (mc_content mention_data);
          (i, w1) = uuid4 e w0;
          (t, w2) = utcnow e w1;
          mention = \<lparr>m_id = i,
                     m_brand_id = mc_brand_id mention_data,
                     m_platform = mc_platform mention_data,
                     m_platform_id = mc_platform_id mention_data,
                     m_content = mc_content mention_data,
                     m_author_name = mc_author_name mention_data,
                     m_author_id = mc_author_id mention_data,
                     m_url = mc_url mention_data,
                     m_created_at = t,
                     m_sentiment_score = sentiment_score,
                     m_sentiment_type = sentiment_type,
                     m_reach = mc_reach mention_data,
                     m_engagement = mc_engagement mention_data\<rparr>
      in case mentions_insert_one e (Mention_dict mention) w2 of
           (Inl err, w3) \<Rightarrow> (Inl err, w3)
         | (Inr _, w3) \<Rightarrow> (Inr mention, w3))"

definition create_post :: "env \<Rightarrow> PostCreate \<Rightarrow> world \<Rightarrow> (error + Post) \<times> world" where
  "create_post e post_data w0 =
     (let (sentiment_score, sentiment_type) = analyze_sentiment e (pc_content post_data);
          (i, w1) = uuid4 e w0;
          (t, w2) = utcnow e w1;
          post = \<lparr>p_id = i,
                  p_brand_id = pc_brand_id post_data,
                  p_platform = pc_platform post_data,
                  p_platform_id = pc_platform_id post_data,
                  p_content = pc_content post_data,
                  p_created_at = t,
                  p_likes = pc_likes post_data,
                  p_shares = pc_shares post_data,
                  p_comments_count = pc_comments_count post_data,
                  p_sentiment_score = sentiment_score,
                  p_sentiment_type = sentiment_type\<rparr>
      in case posts_insert_one e (Post_dict post) w2 of
           (Inl err, w3) \<Rightarrow> (Inl err, w3)
         | (Inr _, w3) \<Rightarrow> (Inr post, w3))"

section \<open>Vocabulary of the specification\<close>

text \<open>The Priority Scorer as the specification words it: a band, a bonus, a cap.\<close>

definition spec_band :: "real \<Rightarrow> int" where
  "spec_band s = (if s \<le> - 0.5 then 5 else if s \<le> - 0.1 then 3 else if s \<ge> 0.5 then 1 else 0)"

definition spec_bonus :: "int \<Rightarrow> int" where
  "spec_bonus e = (if e > 100 then 2 else if e > 50 then 1 else 0)"

definition spec_score_priority :: "real \<Rightarrow> int \<Rightarrow> int" where
  "spec_score_priority s e = min (spec_band s + spec_bonus e) 5"

text \<open>
  The sentiment detector. The window is the brand's comments created in the two hours
  before the evaluation time, the next reading of the clock; the negative ratio of a
  list of documents is the share of those typed negative.
\<close>

definition is_negative :: "doc \<Rightarrow> bool" where
  "is_negative d = (map_of d ''sentiment_type'' = Some (VStr ''negative''))"

definition negative_ratio_of :: "doc list \<Rightarrow> real" where
  "negative_ratio_of ds = real (length (filter is_negative ds)) / real (length ds)"

definition sentiment_window :: "env \<Rightarrow> string \<Rightarrow> world \<Rightarrow> doc list" where
  "sentiment_window e brand_id w =
     filter (query_gte brand_id (utcnow_at e (ticks w) - timedelta_hours 2)) (comments w)"

text \<open>
  The volume detector reads the clock twice: the current hour starts one hour before
  the first reading, the previous hour runs from two hours before the second reading
  to the start of the current hour.
\<close>

definition current_count_of :: "env \<Rightarrow> string \<Rightarrow> world \<Rightarrow> int" where
  "current_count_of e brand_id w =
     int (length (filter (query_gte brand_id (utcnow_at e (ticks w) - timedelta_hours 1))
                    (comments w)))"

definition previous_count_of :: "env \<Rightarrow> string \<Rightarrow> world \<Rightarrow> int" where
  "previous_count_of e brand_id w =
     int (length (filter (query_gte_lt brand_id
                            (utcnow_at e (Suc (ticks w)) - timedelta_hours 2)
                            (utcnow_at e (ticks w) - timedelta_hours 1))
                    (comments w)))"

definition increase_ratio_of :: "int \<Rightarrow> int \<Rightarrow> real" where
  "increase_ratio_of current_count previous_count =
     real_of_int (current_count - previous_count) / real_of_int previous_count"

text \<open>The diagnostic payload of a stored alert: the dictionary under its key \<open>data\<close>.\<close>

definition payload :: "doc \<Rightarrow> doc" where
  "payload a = (case map_of a ''data'' of Some (VDict d) \<Rightarrow> d | _ \<Rightarrow> [])"

section \<open>Concrete inputs\<close>

text \<open>
  An environment where no storage operation fails and the clock reads ten thousand
  seconds (and one microsecond more at each later reading), comments as
  \<^verbatim>\<open>create_comment\<close> stores them, and a database holding given comments only.
\<close>

definition example_env :: env where
  "example_env =
     \<lparr>compound = (\<lambda>_. - 0.6),
      utcnow_at = (\<lambda>n. 10000000000 + int n),
      uuid4_at = (\<lambda>n. ''uuid''),
      format_percent = (\<lambda>_. ''percent''),
      unavailable = (\<lambda>_. False)\<rparr>"

definition example_comment :: "string \<Rightarrow> int \<Rightarrow> SentimentType \<Rightarrow> doc" where
  "example_comment brand_id created_at sentiment_type =
     Comment_dict
       \<lparr>c_id = ''c'',
        c_brand_id = brand_id,
        c_platform = FACEBOOK,
        c_platform_id = ''1'',
        c_content = ''text'',
        c_author_name = ''user'',
        c_author_id = ''u'',
        c_post_id = ''p'',
        c_created_at = created_at,
        c_sentiment_score =
          (case sentiment_type of POSITIVE \<Rightarrow> 0.6 | NEGATIVE \<Rightarrow> - 0.6 | NEUTRAL \<Rightarrow> 0),
        c_sentiment_type = sentiment_type,
        c_needs_response = (sentiment_type = NEGATIVE),
        c_has_response = False,
        c_response_time = None,
        c_priority = (case sentiment_type of POSITIVE \<Rightarrow> 1 | NEGATIVE \<Rightarrow> 5 | NEUTRAL \<Rightarrow> 0)\<rparr>"

definition example_world :: "doc list \<Rightarrow> world" where
  "example_world cs =
     \<lparr>comments = cs, mentions = [], posts = [], alerts = [], ticks = 0, drawn = 0\<rparr>"

definition example_comment_data :: CommentCreate where
  "example_comment_data =
     \<lparr>cc_brand_id = ''acme'',
      cc_platform = FACEBOOK,
      cc_platform_id = ''1'',
      cc_content = ''terrible'',
      cc_author_name = ''user'',
      cc_author_id = ''u'',
      cc_post_id = ''p''\<rparr>"

definition example_mention_data :: MentionCreate where
  "example_mention_data =
     \<lparr>mc_brand_id = ''acme'',
      mc_platform = FACEBOOK,
      mc_platform_id = ''1'',
      mc_content = ''terrible'',
      mc_author_name = ''user'',
      mc_author_id = ''u'',
      mc_url = ''http://example.org/1'',
      mc_reach = 0,
      mc_engagement = 0\<rparr>"

definition example_post_data :: PostCreate where
  "example_post_data =
     \<lparr>pc_brand_id = ''acme'',
      pc_platform = FACEBOOK,
      pc_platform_id = ''1'',
      pc_content = ''terrible'',
      pc_likes = 0,
      pc_shares = 0,
      pc_comments_count = 0\<rparr>"

text \<open>The same environment, except that one kind of storage operation raises.\<close>

definition failing_env :: "db_op \<Rightarrow> env" where
  "failing_env op = example_env\<lparr>unavailable := (\<lambda>x. x = op)\<rparr>"

section \<open>Priority Scorer\<close>

text \<open>
  C4. For every sentiment score and engagement, the priority computed by the code is
  the minimum of 5 and the sum of the sentiment band (5, 3, 1 or 0) and the engagement
  bonus (2, 1 or 0); it is 5 at (-0.6, 150) and 0 at (-0.05, 0). The function is total:
  it has no error branch.
\<close>

theorem calculate_priority_refines_spec:
  "calculate_priority s e = spec_score_priority s e
   \<and> calculate_priority (- 0.6) 150 = 5
   \<and> calculate_priority (- 0.05) 0 = 0"
  by (simp add: calculate_priority_def spec_score_priority_def spec_band_def spec_bonus_def)

lemma calculate_priority_cases:
  "calculate_priority s e =
     min ((if s \<le> - 0.5 then 5 else if s \<le> - 0.1 then 3 else if s \<ge> 0.5 then 1 else 0)
          + (if e > 100 then 2 else if e > 50 then 1 else 0)) 5"
  by (simp add: calculate_priority_def)

text \<open>
  C7, as the specification states it: lowering the sentiment score never lowers the
  priority. The code gives the very positive band +1 and the neutral band 0, so the
  priority drops from 1 to 0 when the score goes down from 0.6 to 0.
\<close>

theorem calculate_priority_not_monotone_in_sentiment:
  "(0::real) \<le> 0.6 \<and> calculate_priority 0.6 0 = 1 \<and> calculate_priority 0 0 = 0"
  by (simp add: calculate_priority_def)

text \<open>
  C7, amended. For a fixed engagement and scores \<open>s1 \<le> s2\<close>, the priority at \<open>s1\<close> is
  at least the priority at \<open>s2\<close> exactly when it is not the case that \<open>s2\<close> is
  very positive (at least 0.5) while \<open>s1\<close> lies in the neutral band (above -0.1 and
  below 0.5). For a fixed score the priority never decreases when the engagement grows,
  and every priority lies between 0 and 5.
\<close>

theorem calculate_priority_monotone:
  "(s1 \<le> s2 \<longrightarrow>
      (calculate_priority s2 e \<le> calculate_priority s1 e
         \<longleftrightarrow> \<not> (- 0.1 < s1 \<and> s1 < 0.5 \<and> 0.5 \<le> s2)))
   \<and> (e1 \<le> e2 \<longrightarrow> calculate_priority s e1 \<le> calculate_priority s e2)
   \<and> 0 \<le> calculate_priority s e \<and> calculate_priority s e \<le> 5"
proof -
  have sentiment: "calculate_priority s2 e \<le> calculate_priority s1 e
         \<longleftrightarrow> \<not> (- 0.1 < s1 \<and> s1 < 0.5 \<and> 0.5 \<le> s2)" if "s1 \<le> s2"
    using that unfolding calculate_priority_cases by (auto split: if_splits)
  have engagement: "calculate_priority s e1 \<le> calculate_priority s e2" if "e1 \<le> e2"
    using that unfolding calculate_priority_cases by (auto split: if_splits)
  have range: "0 \<le> calculate_priority s e \<and> calculate_priority s e \<le> 5"
    unfolding calculate_priority_cases by (auto split: if_splits)
  from sentiment engagement range show ?thesis by blast
qed

theorem calculate_priority_monotone_witness:
  "((- 0.6::real) \<le> - 0.2 \<and> calculate_priority (- 0.2) 60 \<le> calculate_priority (- 0.6) 60)
   \<and> ((60::int) \<le> 150 \<and> calculate_priority (- 0.2) 60 \<le> calculate_priority (- 0.2) 150)
   \<and> 0 \<le> calculate_priority (- 0.2) 60 \<and> calculate_priority (- 0.2) 60 \<le> 5"
  using calculate_priority_monotone [of "- 0.6" "- 0.2" 60 60 150 "- 0.2"]
  by simp

section \<open>Sentiment Classifier\<close>

text \<open>
  C5. The score returned is the compound score of the analyzer, and the category is
  positive exactly when the score is at least 0.05, negative exactly when it is at most
  -0.05, neutral exactly when it lies strictly between; a score of exactly 0.05 is
  positive, exactly -0.05 negative, and 0.0 neutral.
\<close>

theorem analyze_sentiment_thresholds:
  "fst (analyze_sentiment e text) = compound e text
   \<and> (snd (analyze_sentiment e text) = POSITIVE \<longleftrightarrow> compound e text \<ge> 0.05)
   \<and> (snd (analyze_sentiment e text) = NEGATIVE \<longleftrightarrow> compound e text \<le> - 0.05)
   \<and> (snd (analyze_sentiment e text) = NEUTRAL
        \<longleftrightarrow> - 0.05 < compound e text \<and> compound e text < 0.05)
   \<and> analyze_sentiment (e\<lparr>compound := (\<lambda>_. 0.05)\<rparr>) text = (0.05, POSITIVE)
   \<and> analyze_sentiment (e\<lparr>compound := (\<lambda>_. - 0.05)\<rparr>) text = (- 0.05, NEGATIVE)
   \<and> analyze_sentiment (e\<lparr>compound := (\<lambda>_. 0.0)\<rparr>) text = (0.0, NEUTRAL)"
  by (simp add: analyze_sentiment_def Let_def)

section \<open>The detectors in closed form\<close>

lemma create_alert_unfold:
  "create_alert e ad w =
     (let w2 = w\<lparr>drawn := Suc (drawn w), ticks := Suc (ticks w)\<rparr>;
          alert = \<lparr>a_id = uuid4_at e (drawn w),
                   a_brand_id = ac_brand_id ad,
                   a_alert_type = ac_alert_type ad,
                   a_severity = ac_severity ad,
                   a_title = ac_title ad,
                   a_description = ac_description ad,
                   a_created_at = utcnow_at e (ticks w),
                   a_is_acknowledged = False,
                   a_acknowledged_at = None,
                   a_data = ac_data ad\<rparr>
      in if unavailable e InsertAlert then (Inl StorageUnavailable, w2)
         else (Inr alert, w2\<lparr>alerts := alerts w @ [Alert_dict alert]\<rparr>))"
  unfolding create_alert_def uuid4_def utcnow_def alerts_insert_one_def Let_def
  by simp

lemma check_sentiment_alerts_unfold:
  "check_sentiment_alerts e b w =
     (let w1 = w\<lparr>ticks := Suc (ticks w)\<rparr>;
          scanned = take 1000 (sentiment_window e b w)
      in if unavailable e FindComments then (Inl StorageUnavailable, w1)
         else if scanned \<noteq> [] \<and> negative_ratio_of scanned > 0.3 then
           (case create_alert e
                   \<lparr>ac_brand_id = b,
                    ac_alert_type = SENTIMENT,
                    ac_severity = (if negative_ratio_of scanned > 0.5 then HIGH else MEDIUM),
                    ac_title = ''High Negative Sentiment Detected'',
                    ac_description =
                      ''Negative sentiment ratio: '' @ format_percent e (negative_ratio_of scanned)
                        @ '' in the last 2 hours'',
                    ac_data =
                      [(''negative_ratio'', VFloat (negative_ratio_of scanned)),
                       (''total_comments'', VInt (int (length scanned)))]\<rparr> w1 of
              (Inl err, w2) \<Rightarrow> (Inl err, w2)
            | (Inr _, w2) \<Rightarrow> (Inr (), w2))
         else (Inr (), w1))"
  unfolding check_sentiment_alerts_def sentiment_window_def negative_ratio_of_def
    is_negative_def utcnow_def comments_find_to_list_def Let_def
  by simp

lemma check_volume_alerts_unfold:
  "check_volume_alerts e b w =
     (let w2 = w\<lparr>ticks := Suc (Suc (ticks w))\<rparr>;
          cur = current_count_of e b w;
          prev = previous_count_of e b w
      in if unavailable e CountComments then (Inl StorageUnavailable, w2)
         else if prev > 0 \<and> increase_ratio_of cur prev > 2 then
           (case create_alert e
                   \<lparr>ac_brand_id = b,
                    ac_alert_type = VOLUME,
                    ac_severity = HIGH,
                    ac_title = ''Unusual Activity Volume'',
                    ac_description =
                      ''Comment volume increased by '' @ format_percent e (increase_ratio_of cur prev)
                        @ '' in the last hour'',
                    ac_data =
                      [(''volume_increase'', VFloat (increase_ratio_of cur prev)),
                       (''current_count'', VInt cur)]\<rparr> w2 of
              (Inl err, w3) \<Rightarrow> (Inl err, w3)
            | (Inr _, w3) \<Rightarrow> (Inr (), w3))
         else (Inr (), w2))"
  unfolding check_volume_alerts_def current_count_of_def previous_count_of_def
    increase_ratio_of_def utcnow_def comments_count_documents_def Let_def
  by simp

section \<open>Evaluation on the concrete inputs\<close>

lemma query_gte_example:
  "query_gte b t (example_comment b' c st) = (b' = b \<and> t \<le> c)"
  by (simp add: query_gte_def example_comment_def Comment_dict_def)

lemma query_gte_lt_example:
  "query_gte_lt b t1 t2 (example_comment b' c st) = (b' = b \<and> t1 \<le> c \<and> c < t2)"
  by (simp add: query_gte_lt_def example_comment_def Comment_dict_def)

lemma is_negative_example:
  "is_negative (example_comment b c st) = (st = NEGATIVE)"
  by (cases st) (simp_all add: is_negative_def example_comment_def Comment_dict_def)

lemma sentiment_window_example:
  "sentiment_window example_env b (example_world cs) = filter (query_gte b 2800000000) cs"
  by (simp add: sentiment_window_def example_env_def example_world_def timedelta_hours_def)

lemma current_count_of_example:
  "current_count_of example_env b (example_world cs) =
     int (length (filter (query_gte b 6400000000) cs))"
  by (simp add: current_count_of_def example_env_def example_world_def timedelta_hours_def)

lemma previous_count_of_example:
  "previous_count_of example_env b (example_world cs) =
     int (length (filter (query_gte_lt b 2800000001 6400000000) cs))"
  by (simp add: previous_count_of_def example_env_def example_world_def timedelta_hours_def)

lemma example_env_available: "\<not> unavailable example_env op"
  by (simp add: example_env_def)

lemma example_world_alerts: "alerts (example_world cs) = []"
  by (simp add: example_world_def)

section \<open>Alert Evaluator: sentiment detector\<close>

text \<open>
  C1, as the specification states it: an alert whenever the negative share of the
  two-hour window exceeds 0.30. The detector reads at most 1000 documents of the
  window (\<^verbatim>\<open>to_list(1000)\<close>): with 1000 neutral comments stored before 1000
  negative ones, all in the window, half of the window is negative and no alert is
  emitted.
\<close>

theorem check_sentiment_alerts_cap_counterexample:
  "sentiment_window example_env ''acme''
      (example_world (replicate 1000 (example_comment ''acme'' 9000000000 NEUTRAL)
                      @ replicate 1000 (example_comment ''acme'' 9000000000 NEGATIVE))) \<noteq> []
   \<and> negative_ratio_of (sentiment_window example_env ''acme''
      (example_world (replicate 1000 (example_comment ''acme'' 9000000000 NEUTRAL)
                      @ replicate 1000 (example_comment ''acme'' 9000000000 NEGATIVE)))) = 0.5
   \<and> alerts (snd (check_sentiment_alerts example_env ''acme''
      (example_world (replicate 1000 (example_comment ''acme'' 9000000000 NEUTRAL)
                      @ replicate 1000 (example_comment ''acme'' 9000000000 NEGATIVE))))) = []"
  by (simp add: check_sentiment_alerts_unfold example_env_available sentiment_window_example
        example_world_alerts negative_ratio_of_def filter_replicate query_gte_example
        is_negative_example Let_def)

text \<open>
  C1, amended. When reading the comments and writing the alert succeed, the sentiment
  detector decides on the scanned comments, the first 1000 of the brand's two-hour
  window (the whole window when it holds at most 1000 comments): it emits no alert when
  none is scanned; otherwise it emits one alert, of type sentiment for that brand, exactly
  when the negative share of the scanned comments strictly exceeds 0.30, with severity
  high when the share strictly exceeds 0.50 and medium otherwise.
\<close>

theorem check_sentiment_alerts_decision:
  assumes "\<not> unavailable e FindComments" and "\<not> unavailable e InsertAlert"
  shows "fst (check_sentiment_alerts e b w) = Inr ()
    \<and> (if take 1000 (sentiment_window e b w) \<noteq> []
           \<and> negative_ratio_of (take 1000 (sentiment_window e b w)) > 0.3
        then \<exists>a. alerts (snd (check_sentiment_alerts e b w)) = alerts w @ [Alert_dict a]
               \<and> a_brand_id a = b \<and> a_alert_type a = SENTIMENT
               \<and> a_severity a =
                   (if negative_ratio_of (take 1000 (sentiment_window e b w)) > 0.5
                    then HIGH else MEDIUM)
        else alerts (snd (check_sentiment_alerts e b w)) = alerts w)
    \<and> (length (sentiment_window e b w) \<le> 1000
         \<longrightarrow> take 1000 (sentiment_window e b w) = sentiment_window e b w)"
  using assms by (auto simp add: check_sentiment_alerts_unfold create_alert_unfold Let_def intro!: exI)

theorem check_sentiment_alerts_decision_witness:
  "\<not> unavailable example_env FindComments \<and> \<not> unavailable example_env InsertAlert
   \<and> alerts (snd (check_sentiment_alerts example_env ''acme''
        (example_world (replicate 3 (example_comment ''acme'' 9000000000 NEGATIVE)
                        @ replicate 7 (example_comment ''acme'' 9000000000 NEUTRAL))))) = []
   \<and> (\<exists>a. alerts (snd (check_sentiment_alerts example_env ''acme''
        (example_world (replicate 4 (example_comment ''acme'' 9000000000 NEGATIVE)
                        @ replicate 6 (example_comment ''acme'' 9000000000 NEUTRAL)))))
          = [Alert_dict a] \<and> a_severity a = MEDIUM)
   \<and> (\<exists>a. alerts (snd (check_sentiment_alerts example_env ''acme''
        (example_world (replicate 6 (example_comment ''acme'' 9000000000 NEGATIVE)
                        @ replicate 4 (example_comment ''acme'' 9000000000 NEUTRAL)))))
          = [Alert_dict a] \<and> a_severity a = HIGH)
   \<and> alerts (snd (check_sentiment_alerts example_env ''acme'' (example_world []))) = []"
  using
    check_sentiment_alerts_decision [OF example_env_available example_env_available, of "''acme''"
      "example_world (replicate 3 (example_comment ''acme'' 9000000000 NEGATIVE)
                        @ replicate 7 (example_comment ''acme'' 9000000000 NEUTRAL))"]
    check_sentiment_alerts_decision [OF example_env_available example_env_available, of "''acme''"
      "example_world (replicate 4 (example_comment ''acme'' 9000000000 NEGATIVE)
                        @ replicate 6 (example_comment ''acme'' 9000000000 NEUTRAL))"]
    check_sentiment_alerts_decision [OF example_env_available example_env_available, of "''acme''"
      "example_world (replicate 6 (example_comment ''acme'' 9000000000 NEGATIVE)
                        @ replicate 4 (example_comment ''acme'' 9000000000 NEUTRAL))"]
    check_sentiment_alerts_decision [OF example_env_available example_env_available, of "''acme''"
      "example_world []"]
  by (simp add: example_env_available sentiment_window_example example_world_alerts
        negative_ratio_of_def filter_replicate query_gte_example is_negative_example)
    blast

section \<open>Alert Evaluator: volume detector\<close>

text \<open>
  C2. When counting the comments and writing the alert succeed, the volume detector
  emits no alert when the previous-hour count is zero, whatever the current-hour count;
  when the previous count is positive it emits one alert exactly when
  (current - previous) / previous strictly exceeds 2.0, and that alert has severity high.
\<close>

theorem check_volume_alerts_decision:
  assumes "\<not> unavailable e CountComments" and "\<not> unavailable e InsertAlert"
  shows "fst (check_volume_alerts e b w) = Inr ()
    \<and> (previous_count_of e b w = 0 \<longrightarrow> alerts (snd (check_volume_alerts e b w)) = alerts w)
    \<and> (if previous_count_of e b w > 0
           \<and> increase_ratio_of (current_count_of e b w) (previous_count_of e b w) > 2.0
        then \<exists>a. alerts (snd (check_volume_alerts e b w)) = alerts w @ [Alert_dict a]
               \<and> a_brand_id a = b \<and> a_alert_type a = VOLUME \<and> a_severity a = HIGH
        else alerts (snd (check_volume_alerts e b w)) = alerts w)"
  using assms by (auto simp add: check_volume_alerts_unfold create_alert_unfold Let_def intro!: exI)

theorem check_volume_alerts_decision_witness:
  "\<not> unavailable example_env CountComments \<and> \<not> unavailable example_env InsertAlert
   \<and> previous_count_of example_env ''acme''
        (example_world (replicate 10 (example_comment ''acme'' 5000000000 NEUTRAL)
                        @ replicate 35 (example_comment ''acme'' 9000000000 NEUTRAL))) = 10
   \<and> current_count_of example_env ''acme''
        (example_world (replicate 10 (example_comment ''acme'' 5000000000 NEUTRAL)
                        @ replicate 35 (example_comment ''acme'' 9000000000 NEUTRAL))) = 35
   \<and> increase_ratio_of 35 10 = 2.5
   \<and> (\<exists>a. alerts (snd (check_volume_alerts example_env ''acme''
        (example_world (replicate 10 (example_comment ''acme'' 5000000000 NEUTRAL)
                        @ replicate 35 (example_comment ''acme'' 9000000000 NEUTRAL)))))
          = [Alert_dict a] \<and> a_severity a = HIGH)
   \<and> previous_count_of example_env ''acme''
        (example_world (replicate 35 (example_comment ''acme'' 9000000000 NEUTRAL))) = 0
   \<and> alerts (snd (check_volume_alerts example_env ''acme''
        (example_world (replicate 35 (example_comment ''acme'' 9000000000 NEUTRAL))))) = []"
  using
    check_volume_alerts_decision [OF example_env_available example_env_available, of "''acme''"
      "example_world (replicate 10 (example_comment ''acme'' 5000000000 NEUTRAL)
                        @ replicate 35 (example_comment ''acme'' 9000000000 NEUTRAL))"]
    check_volume_alerts_decision [OF example_env_available example_env_available, of "''acme''"
      "example_world (replicate 35 (example_comment ''acme'' 9000000000 NEUTRAL))"]
  by (simp add: example_env_available current_count_of_example previous_count_of_example
        example_world_alerts increase_ratio_of_def filter_replicate query_gte_example
        query_gte_lt_example)
    blast

section \<open>Alert payloads\<close>

text \<open>
  C8, as the specification states it: the payloads carry the fields \<open>total_count\<close> and
  \<open>increase_ratio\<close>. The alert emitted for one negative comment has no field
  \<open>total_count\<close>, and the alert emitted for 10 comments followed by 35 has no field
  \<open>increase_ratio\<close>.
\<close>

theorem alert_payload_fields_counterexample:
  "length (alerts (snd (check_sentiment_alerts example_env ''acme''
      (example_world [example_comment ''acme'' 9000000000 NEGATIVE])))) = 1
   \<and> map_of (payload (last (alerts (snd (check_sentiment_alerts example_env ''acme''
      (example_world [example_comment ''acme'' 9000000000 NEGATIVE])))))) ''total_count'' = None
   \<and> length (alerts (snd (check_volume_alerts example_env ''acme''
      (example_world (replicate 10 (example_comment ''acme'' 5000000000 NEUTRAL)
                      @ replicate 35 (example_comment ''acme'' 9000000000 NEUTRAL)))))) = 1
   \<and> map_of (payload (last (alerts (snd (check_volume_alerts example_env ''acme''
      (example_world (replicate 10 (example_comment ''acme'' 5000000000 NEUTRAL)
                      @ replicate 35 (example_comment ''acme'' 9000000000 NEUTRAL))))))))
        ''increase_ratio'' = None"
  by (simp add: check_sentiment_alerts_unfold check_volume_alerts_unfold create_alert_unfold
        example_env_available sentiment_window_example current_count_of_example
        previous_count_of_example example_world_alerts negative_ratio_of_def
        increase_ratio_of_def filter_replicate query_gte_example query_gte_lt_example
        is_negative_example Let_def payload_def Alert_dict_def)

text \<open>
  C8, amended. Every alert emitted by the sentiment detector carries a payload with
  exactly the fields \<open>negative_ratio\<close> and \<open>total_comments\<close> (the share and the number
  of the scanned comments), and every alert emitted by the volume detector a payload
  with exactly the fields \<open>volume_increase\<close> and \<open>current_count\<close>.
\<close>

theorem alert_payload_fields:
  "(alerts (snd (check_sentiment_alerts e b w)) = alerts w
     \<or> (\<exists>a. alerts (snd (check_sentiment_alerts e b w)) = alerts w @ [a]
          \<and> payload a =
              [(''negative_ratio'',
                  VFloat (negative_ratio_of (take 1000 (sentiment_window e b w)))),
               (''total_comments'',
                  VInt (int (length (take 1000 (sentiment_window e b w)))))]))
   \<and> (alerts (snd (check_volume_alerts e b w)) = alerts w
     \<or> (\<exists>a. alerts (snd (check_volume_alerts e b w)) = alerts w @ [a]
          \<and> payload a =
              [(''volume_increase'',
                  VFloat (increase_ratio_of (current_count_of e b w) (previous_count_of e b w))),
               (''current_count'', VInt (current_count_of e b w))]))"
  by (simp add: check_sentiment_alerts_unfold check_volume_alerts_unfold create_alert_unfold
        Let_def payload_def Alert_dict_def)

section \<open>The ingestion routes in closed form\<close>

lemma analyze_sentiment_fst: "fst (analyze_sentiment e t) = compound e t"
  by (simp add: analyze_sentiment_def Let_def)

lemma create_comment_unfold:
  "create_comment e cd w =
     (let score = compound e (cc_content cd);
          comment = \<lparr>c_id = uuid4_at e (drawn w),
                     c_brand_id = cc_brand_id cd,
                     c_platform = cc_platform cd,
                     c_platform_id = cc_platform_id cd,
                     c_content = cc_content cd,
                     c_author_name = cc_author_name cd,
                     c_author_id = cc_author_id cd,
                     c_post_id = cc_post_id cd,
                     c_created_at = utcnow_at e (ticks w),
                     c_sentiment_score = score,
                     c_sentiment_type = snd (analyze_sentiment e (cc_content cd)),
                     c_needs_response = (score < - 0.1 \<or> calculate_priority score 0 \<ge> 3),
                     c_has_response = False,
                     c_response_time = None,
                     c_priority = calculate_priority score 0\<rparr>;
          w2 = w\<lparr>drawn := Suc (drawn w), ticks := Suc (ticks w)\<rparr>;
          w3 = w2\<lparr>comments := comments w @ [Comment_dict comment]\<rparr>
      in if unavailable e InsertComment then (Inl StorageUnavailable, w2)
         else (case check_sentiment_alerts e (cc_brand_id cd) w3 of
                 (Inl err, w4) \<Rightarrow> (Inl err, w4)
               | (Inr _, w4) \<Rightarrow>
                  (case check_volume_alerts e (cc_brand_id cd) w4 of
                     (Inl err, w5) \<Rightarrow> (Inl err, w5)
                   | (Inr _, w5) \<Rightarrow> (Inr comment, w5))))"
proof -
  obtain st where eq: "analyze_sentiment e (cc_content cd) = (compound e (cc_content cd), st)"
    by (simp add: analyze_sentiment_def Let_def)
  show ?thesis
    unfolding create_comment_def uuid4_def utcnow_def comments_insert_one_def Let_def eq split_conv snd_conv
    by (simp cong: prod.case_cong sum.case_cong)
qed

lemma create_mention_unfold:
  "create_mention e md w =
     (let mention = \<lparr>m_id = uuid4_at e (drawn w),
                     m_brand_id = mc_brand_id md,
                     m_platform = mc_platform md,
                     m_platform_id = mc_platform_id md,
                     m_content = mc_content md,
                     m_author_name = mc_author_name md,
                     m_author_id = mc_author_id md,
                     m_url = mc_url md,
                     m_created_at = utcnow_at e (ticks w),
                     m_sentiment_score = compound e (mc_content md),
                     m_sentiment_type = snd (analyze_sentiment e (mc_content md)),
                     m_reach = mc_reach md,
                     m_engagement = mc_engagement md\<rparr>;
          w2 = w\<lparr>drawn := Suc (drawn w), ticks := Suc (ticks w)\<rparr>
      in if unavailable e InsertMention then (Inl StorageUnavailable, w2)
         else (Inr mention, w2\<lparr>mentions := mentions w @ [Mention_dict mention]\<rparr>))"
proof -
  obtain st where eq: "analyze_sentiment e (mc_content md) = (compound e (mc_content md), st)"
    by (simp add: analyze_sentiment_def Let_def)
  show ?thesis
    unfolding create_mention_def uuid4_def utcnow_def mentions_insert_one_def Let_def eq split_conv snd_conv
    by (simp cong: prod.case_cong sum.case_cong)
qed

lemma create_post_unfold:
  "create_post e pd w =
     (let post = \<lparr>p_id = uuid4_at e (drawn w),
                  p_brand_id = pc_brand_id pd,
                  p_platform = pc_platform pd,
                  p_platform_id = pc_platform_id pd,
                  p_content = pc_content pd,
                  p_created_at = utcnow_at e (ticks w),
                  p_likes = pc_likes pd,
                  p_shares = pc_shares pd,
                  p_comments_count = pc_comments_count pd,
                  p_sentiment_score = compound e (pc_content pd),
                  p_sentiment_type = snd (analyze_sentiment e (pc_content pd))\<rparr>;
          w2 = w\<lparr>drawn := Suc (drawn w), ticks := Suc (ticks w)\<rparr>
      in if unavailable e InsertPost then (Inl StorageUnavailable, w2)
         else (Inr post, w2\<lparr>posts := posts w @ [Post_dict post]\<rparr>))"
proof -
  obtain st where eq: "analyze_sentiment e (pc_content pd) = (compound e (pc_content pd), st)"
    by (simp add: analyze_sentiment_def Let_def)
  show ?thesis
    unfolding create_post_def uuid4_def utcnow_def posts_insert_one_def Let_def eq split_conv snd_conv
    by (simp cong: prod.case_cong sum.case_cong)
qed

lemma check_sentiment_alerts_comments:
  "comments (snd (check_sentiment_alerts e b w)) = comments w"
  by (simp add: check_sentiment_alerts_unfold create_alert_unfold Let_def)

lemma check_volume_alerts_comments:
  "comments (snd (check_volume_alerts e b w)) = comments w"
  by (simp add: check_volume_alerts_unfold create_alert_unfold Let_def)

lemma check_sentiment_alerts_unavailable:
  "unavailable e FindComments \<Longrightarrow> fst (check_sentiment_alerts e b w) = Inl StorageUnavailable"
  by (simp add: check_sentiment_alerts_unfold Let_def)

lemma check_volume_alerts_unavailable:
  "unavailable e CountComments \<Longrightarrow> fst (check_volume_alerts e b w) = Inl StorageUnavailable"
  by (simp add: check_volume_alerts_unfold Let_def)

lemma check_sentiment_alerts_ok:
  "\<not> unavailable e FindComments \<Longrightarrow> \<not> unavailable e InsertAlert \<Longrightarrow>
     fst (check_sentiment_alerts e b w) = Inr ()"
  by (simp add: check_sentiment_alerts_unfold create_alert_unfold Let_def)

lemma check_volume_alerts_ok:
  "\<not> unavailable e CountComments \<Longrightarrow> \<not> unavailable e InsertAlert \<Longrightarrow>
     fst (check_volume_alerts e b w) = Inr ()"
  by (simp add: check_volume_alerts_unfold create_alert_unfold Let_def)

lemma failing_env_unavailable: "unavailable (failing_env op) x = (x = op)"
  by (simp add: failing_env_def)

lemma create_comment_stored:
  assumes "\<not> unavailable e InsertComment"
  shows "comments (snd (create_comment e cd w)) =
           comments w @
           [Comment_dict
              \<lparr>c_id = uuid4_at e (drawn w),
               c_brand_id = cc_brand_id cd,
               c_platform = cc_platform cd,
               c_platform_id = cc_platform_id cd,
               c_content = cc_content cd,
               c_author_name = cc_author_name cd,
               c_author_id = cc_author_id cd,
               c_post_id = cc_post_id cd,
               c_created_at = utcnow_at e (ticks w),
               c_sentiment_score = compound e (cc_content cd),
               c_sentiment_type = snd (analyze_sentiment e (cc_content cd)),
               c_needs_response =
                 (compound e (cc_content cd) < - 0.1
                  \<or> calculate_priority (compound e (cc_content cd)) 0 \<ge> 3),
               c_has_response = False,
               c_response_time = None,
               c_priority = calculate_priority (compound e (cc_content cd)) 0\<rparr>]"
proof -
  have frame: "comments (snd (case check_sentiment_alerts e b w3 of
                 (Inl err, w4) \<Rightarrow> (Inl err, w4)
               | (Inr u, w4) \<Rightarrow>
                  (case check_volume_alerts e b w4 of
                     (Inl err, w5) \<Rightarrow> (Inl err, w5)
                   | (Inr u, w5) \<Rightarrow> (Inr c, w5)))) = comments w3" for b w3 and c :: Comment
    using check_sentiment_alerts_comments [of e b w3]
      check_volume_alerts_comments [of e b "snd (check_sentiment_alerts e b w3)"]
    by (auto split: prod.splits sum.splits)
  show ?thesis
    using assms by (simp add: create_comment_unfold Let_def frame)
qed

lemma create_comment_outcome:
  assumes "\<not> unavailable e InsertComment"
    and "check_sentiment_alerts e (cc_brand_id cd)
           (w\<lparr>drawn := Suc (drawn w), ticks := Suc (ticks w),
              comments := comments (snd (create_comment e cd w))\<rparr>) = (r1, w4)"
    and "check_volume_alerts e (cc_brand_id cd) w4 = (r2, w5)"
  shows "create_comment e cd w =
     (case r1 of
        Inl err \<Rightarrow> (Inl err, w4)
      | Inr u \<Rightarrow>
         (case r2 of
            Inl err \<Rightarrow> (Inl err, w5)
          | Inr u \<Rightarrow>
             (Inr \<lparr>c_id = uuid4_at e (drawn w),
                   c_brand_id = cc_brand_id cd,
                   c_platform = cc_platform cd,
                   c_platform_id = cc_platform_id cd,
                   c_content = cc_content cd,
                   c_author_name = cc_author_name cd,
                   c_author_id = cc_author_id cd,
                   c_post_id = cc_post_id cd,
                   c_created_at = utcnow_at e (ticks w),
                   c_sentiment_score = compound e (cc_content cd),
                   c_sentiment_type = snd (analyze_sentiment e (cc_content cd)),
                   c_needs_response =
                     (compound e (cc_content cd) < - 0.1
                      \<or> calculate_priority (compound e (cc_content cd)) 0 \<ge> 3),
                   c_has_response = False,
                   c_response_time = None,
                   c_priority = calculate_priority (compound e (cc_content cd)) 0\<rparr>, w5)))"
proof -
  note stored = create_comment_stored [OF assms(1), of cd w]
  show ?thesis
  proof (cases r1)
    case (Inl err)
    with assms(1,2) show ?thesis
      unfolding stored by (simp add: create_comment_unfold Let_def)
  next
    case r1: (Inr u)
    show ?thesis
    proof (cases r2)
      case (Inl err)
      with r1 assms show ?thesis
        unfolding stored by (simp add: create_comment_unfold Let_def)
    next
      case (Inr u')
      with r1 assms show ?thesis
        unfolding stored by (simp add: create_comment_unfold Let_def)
    qed
  qed
qed

lemma create_mention_stored:
  "\<not> unavailable e InsertMention \<Longrightarrow>
     \<exists>m. create_mention e md w =
           (Inr m, w\<lparr>drawn := Suc (drawn w), ticks := Suc (ticks w),
                     mentions := mentions w @ [Mention_dict m]\<rparr>)"
  by (simp add: create_mention_unfold Let_def)

lemma create_post_stored:
  "\<not> unavailable e InsertPost \<Longrightarrow>
     \<exists>p. create_post e pd w =
           (Inr p, w\<lparr>drawn := Suc (drawn w), ticks := Suc (ticks w),
                     posts := posts w @ [Post_dict p]\<rparr>)"
  by (simp add: create_post_unfold Let_def)

section \<open>Event Ingestor: failures on the alert path\<close>

text \<open>
  C3, as the specification states it: a failure on the alert path is caught and the
  ingestion still returns the stored comment. With the comment written and the read of
  the sentiment window failing, \<^verbatim>\<open>create_comment\<close> ends with the error, the
  comment being stored.
\<close>

theorem create_comment_alert_failure_counterexample:
  "\<not> unavailable (failing_env FindComments) InsertComment
   \<and> length (comments (snd (create_comment (failing_env FindComments) example_comment_data
                              (example_world [])))) = 1
   \<and> fst (create_comment (failing_env FindComments) example_comment_data (example_world []))
       = Inl StorageUnavailable"
  by (simp add: create_comment_unfold check_sentiment_alerts_unfold failing_env_unavailable
        example_world_def Let_def)

text \<open>
  C3, amended. When the write of the comment succeeds, the comment stays stored
  whatever happens on the alert path, and the call returns either the stored comment
  or the storage error: it returns the comment exactly when both detectors, run in turn
  on the database holding the new comment, end without error. An error raised by a
  detector is not caught; in particular a failing read or count of the comments makes
  the ingestion call fail.
\<close>

theorem create_comment_alert_failure_propagates:
  assumes "\<not> unavailable e InsertComment"
  shows "\<exists>c. comments (snd (create_comment e cd w)) = comments w @ [Comment_dict c]
      \<and> (fst (create_comment e cd w) = Inr c
           \<or> fst (create_comment e cd w) = Inl StorageUnavailable)
      \<and> (fst (create_comment e cd w) = Inr c \<longleftrightarrow>
            fst (check_sentiment_alerts e (cc_brand_id cd)
                   (w\<lparr>drawn := Suc (drawn w), ticks := Suc (ticks w),
                      comments := comments w @ [Comment_dict c]\<rparr>)) = Inr ()
            \<and> fst (check_volume_alerts e (cc_brand_id cd)
                   (snd (check_sentiment_alerts e (cc_brand_id cd)
                      (w\<lparr>drawn := Suc (drawn w), ticks := Suc (ticks w),
                         comments := comments w @ [Comment_dict c]\<rparr>)))) = Inr ())
      \<and> (unavailable e FindComments \<or> unavailable e CountComments
           \<longrightarrow> fst (create_comment e cd w) = Inl StorageUnavailable)"
proof -
  define c where "c = \<lparr>c_id = uuid4_at e (drawn w),
                   c_brand_id = cc_brand_id cd,
                   c_platform = cc_platform cd,
                   c_platform_id = cc_platform_id cd,
                   c_content = cc_content cd,
                   c_author_name = cc_author_name cd,
                   c_author_id = cc_author_id cd,
                   c_post_id = cc_post_id cd,
                   c_created_at = utcnow_at e (ticks w),
                   c_sentiment_score = compound e (cc_content cd),
                   c_sentiment_type = snd (analyze_sentiment e (cc_content cd)),
                   c_needs_response =
                     (compound e (cc_content cd) < - 0.1
                      \<or> calculate_priority (compound e (cc_content cd)) 0 \<ge> 3),
                   c_has_response = False,
                   c_response_time = None,
                   c_priority = calculate_priority (compound e (cc_content cd)) 0\<rparr>"
  define w3 where "w3 = w\<lparr>drawn := Suc (drawn w), ticks := Suc (ticks w),
                      comments := comments w @ [Comment_dict c]\<rparr>"
  have stored: "comments (snd (create_comment e cd w)) = comments w @ [Comment_dict c]"
    unfolding c_def by (rule create_comment_stored [OF assms])
  obtain r1 w4 where s: "check_sentiment_alerts e (cc_brand_id cd) w3 = (r1, w4)"
    by (cases "check_sentiment_alerts e (cc_brand_id cd) w3") blast
  obtain r2 w5 where v: "check_volume_alerts e (cc_brand_id cd) w4 = (r2, w5)"
    by (cases "check_volume_alerts e (cc_brand_id cd) w4") blast
  have s0: "check_sentiment_alerts e (cc_brand_id cd)
           (w\<lparr>drawn := Suc (drawn w), ticks := Suc (ticks w),
              comments := comments (snd (create_comment e cd w))\<rparr>) = (r1, w4)"
    using s by (simp add: stored w3_def)
  have out: "create_comment e cd w =
     (case r1 of
        Inl err \<Rightarrow> (Inl err, w4)
      | Inr u \<Rightarrow> (case r2 of Inl err \<Rightarrow> (Inl err, w5) | Inr u \<Rightarrow> (Inr c, w5)))"
    unfolding c_def by (rule create_comment_outcome [OF assms s0 v])
  have find: "r1 = Inl StorageUnavailable" if "unavailable e FindComments"
    using check_sentiment_alerts_unavailable [OF that, of "cc_brand_id cd" w3] s by simp
  have count: "r2 = Inl StorageUnavailable" if "unavailable e CountComments"
    using check_volume_alerts_unavailable [OF that, of "cc_brand_id cd" w4] v by simp
  have e1: "r1 = Inl StorageUnavailable \<or> r1 = Inr ()"
    by (cases r1) (auto intro: error.exhaust)
  have e2: "r2 = Inl StorageUnavailable \<or> r2 = Inr ()"
    by (cases r2) (auto intro: error.exhaust)
  have "(fst (create_comment e cd w) = Inr c
           \<or> fst (create_comment e cd w) = Inl StorageUnavailable)
      \<and> (fst (create_comment e cd w) = Inr c \<longleftrightarrow>
            fst (check_sentiment_alerts e (cc_brand_id cd) w3) = Inr ()
            \<and> fst (check_volume_alerts e (cc_brand_id cd)
                   (snd (check_sentiment_alerts e (cc_brand_id cd) w3))) = Inr ())
      \<and> (unavailable e FindComments \<or> unavailable e CountComments
           \<longrightarrow> fst (create_comment e cd w) = Inl StorageUnavailable)"
    using e1 e2 find count by (auto simp: out s v)
  with stored show ?thesis
    unfolding w3_def by blast
qed

theorem create_comment_alert_failure_propagates_witness:
  "\<not> unavailable (failing_env CountComments) InsertComment
   \<and> (\<exists>c. comments (snd (create_comment (failing_env CountComments) example_comment_data
                            (example_world []))) = [Comment_dict c])
   \<and> fst (create_comment (failing_env CountComments) example_comment_data (example_world []))
       = Inl StorageUnavailable"
  using create_comment_alert_failure_propagates
    [of "failing_env CountComments" example_comment_data "example_world []"]
  by (simp add: failing_env_unavailable example_world_def) blast

section \<open>Event Ingestor: which events trigger the detectors\<close>

text \<open>
  C9, as the specification states it: the detectors run after every ingested mention.
  With one negative comment of the brand in the window, ingesting a mention succeeds
  and leaves the alerts empty, although the sentiment detector, run on the resulting
  database, emits an alert.
\<close>

theorem detectors_not_run_for_mentions_counterexample:
  "fst (create_mention example_env example_mention_data
          (example_world [example_comment ''acme'' 9000000000 NEGATIVE]))
     \<noteq> Inl StorageUnavailable
   \<and> alerts (snd (create_mention example_env example_mention_data
          (example_world [example_comment ''acme'' 9000000000 NEGATIVE]))) = []
   \<and> length (alerts (snd (check_sentiment_alerts example_env ''acme''
        (snd (create_mention example_env example_mention_data
          (example_world [example_comment ''acme'' 9000000000 NEGATIVE])))))) = 1"
  by (simp add: create_mention_unfold check_sentiment_alerts_unfold create_alert_unfold
        example_env_available example_mention_data_def example_world_def Let_def
        sentiment_window_def negative_ratio_of_def is_negative_example query_gte_example
        example_env_def timedelta_hours_def)

text \<open>
  C9, amended. When no storage operation fails, ingesting a comment persists it, runs
  the sentiment detector and then the volume detector for the comment's brand on the
  database that holds the new comment, and returns the comment with the database the
  detectors leave. Ingesting a mention or a post draws one identifier, reads the clock
  once and appends the document to its own collection: no detector runs and the alerts
  are unchanged.
\<close>

theorem detectors_run_for_comments_only:
  "(\<not> unavailable e InsertComment \<and> \<not> unavailable e FindComments
      \<and> \<not> unavailable e CountComments \<and> \<not> unavailable e InsertAlert \<longrightarrow>
      (\<exists>c. comments (snd (create_comment e cd w)) = comments w @ [Comment_dict c]
         \<and> create_comment e cd w =
             (Inr c,
              snd (check_volume_alerts e (cc_brand_id cd)
                (snd (check_sentiment_alerts e (cc_brand_id cd)
                  (w\<lparr>drawn := Suc (drawn w), ticks := Suc (ticks w),
                     comments := comments w @ [Comment_dict c]\<rparr>)))))))
   \<and> (\<not> unavailable e InsertMention \<longrightarrow>
      (\<exists>m. create_mention e md w =
             (Inr m, w\<lparr>drawn := Suc (drawn w), ticks := Suc (ticks w),
                       mentions := mentions w @ [Mention_dict m]\<rparr>)))
   \<and> (\<not> unavailable e InsertPost \<longrightarrow>
      (\<exists>p. create_post e pd w =
             (Inr p, w\<lparr>drawn := Suc (drawn w), ticks := Suc (ticks w),
                       posts := posts w @ [Post_dict p]\<rparr>)))
   \<and> alerts (snd (create_mention e md w)) = alerts w
   \<and> alerts (snd (create_post e pd w)) = alerts w"
proof -
  have comment: "\<exists>c. comments (snd (create_comment e cd w)) = comments w @ [Comment_dict c]
         \<and> create_comment e cd w =
             (Inr c,
              snd (check_volume_alerts e (cc_brand_id cd)
                (snd (check_sentiment_alerts e (cc_brand_id cd)
                  (w\<lparr>drawn := Suc (drawn w), ticks := Suc (ticks w),
                     comments := comments w @ [Comment_dict c]\<rparr>)))))"
    if ok: "\<not> unavailable e InsertComment" "\<not> unavailable e FindComments"
      "\<not> unavailable e CountComments" "\<not> unavailable e InsertAlert"
  proof -
    note stored = create_comment_stored [OF ok(1), of cd w]
    obtain r1 w4 where s: "check_sentiment_alerts e (cc_brand_id cd)
           (w\<lparr>drawn := Suc (drawn w), ticks := Suc (ticks w),
              comments := comments (snd (create_comment e cd w))\<rparr>) = (r1, w4)"
      by (cases "check_sentiment_alerts e (cc_brand_id cd)
           (w\<lparr>drawn := Suc (drawn w), ticks := Suc (ticks w),
              comments := comments (snd (create_comment e cd w))\<rparr>)") blast
    obtain r2 w5 where v: "check_volume_alerts e (cc_brand_id cd) w4 = (r2, w5)"
      by (cases "check_volume_alerts e (cc_brand_id cd) w4") blast
    have r1: "r1 = Inr ()"
      using check_sentiment_alerts_ok [OF ok(2) ok(4)] s by (metis fst_conv)
    have r2: "r2 = Inr ()"
      using check_volume_alerts_ok [OF ok(3) ok(4)] v by (metis fst_conv)
    note out = create_comment_outcome [OF ok(1) s v, unfolded r1 r2, simplified]
    show ?thesis
      using stored s [unfolded stored] v out by (intro exI conjI) (assumption, simp)
  qed
  have mention: "\<exists>m. create_mention e md w =
             (Inr m, w\<lparr>drawn := Suc (drawn w), ticks := Suc (ticks w),
                       mentions := mentions w @ [Mention_dict m]\<rparr>)"
    if "\<not> unavailable e InsertMention"
    using that by (simp add: create_mention_unfold Let_def)
  have post: "\<exists>p. create_post e pd w =
             (Inr p, w\<lparr>drawn := Suc (drawn w), ticks := Suc (ticks w),
                       posts := posts w @ [Post_dict p]\<rparr>)"
    if "\<not> unavailable e InsertPost"
    using that by (simp add: create_post_unfold Let_def)
  have frame: "alerts (snd (create_mention e md w)) = alerts w"
    "alerts (snd (create_post e pd w)) = alerts w"
    by (simp_all add: create_mention_unfold create_post_unfold Let_def)
  from comment mention post frame show ?thesis by blast
qed

theorem detectors_run_for_comments_only_witness:
  "(\<not> unavailable example_env InsertComment \<and> \<not> unavailable example_env FindComments
      \<and> \<not> unavailable example_env CountComments \<and> \<not> unavailable example_env InsertAlert)
   \<and> (\<exists>c. fst (create_comment example_env example_comment_data (example_world [])) = Inr c)
   \<and> \<not> unavailable example_env InsertMention
   \<and> (\<exists>m. fst (create_mention example_env example_mention_data (example_world [])) = Inr m)
   \<and> \<not> unavailable example_env InsertPost
   \<and> (\<exists>p. fst (create_post example_env example_post_data (example_world [])) = Inr p)"
  using detectors_run_for_comments_only
    [of example_env example_comment_data "example_world []" example_mention_data
      example_post_data]
  by (simp add: example_env_available) (metis fst_conv)

section \<open>Event Ingestor: priority and response flag\<close>

text \<open>
  C6. The document stored for an ingested comment carries the flag \<open>needs_response\<close>,
  equal to (score < -0.1) or (priority >= 3) for the score and priority stored with
  it; the documents stored for mentions and posts have no field \<open>needs_response\<close>.
\<close>

theorem needs_response_flag:
  "(\<not> unavailable e InsertComment \<longrightarrow>
      (\<exists>c. comments (snd (create_comment e cd w)) = comments w @ [Comment_dict c]
         \<and> c_sentiment_score c = fst (analyze_sentiment e (cc_content cd))
         \<and> c_priority c = calculate_priority (c_sentiment_score c) 0
         \<and> map_of (Comment_dict c) ''needs_response''
             = Some (VBool (c_sentiment_score c < - 0.1 \<or> c_priority c \<ge> 3))))
   \<and> (\<not> unavailable e InsertMention \<longrightarrow>
      (\<exists>m. mentions (snd (create_mention e md w)) = mentions w @ [Mention_dict m]
         \<and> map_of (Mention_dict m) ''needs_response'' = None))
   \<and> (\<not> unavailable e InsertPost \<longrightarrow>
      (\<exists>p. posts (snd (create_post e pd w)) = posts w @ [Post_dict p]
         \<and> map_of (Post_dict p) ''needs_response'' = None))"
proof -
  have comment: "\<exists>c. comments (snd (create_comment e cd w)) = comments w @ [Comment_dict c]
         \<and> c_sentiment_score c = fst (analyze_sentiment e (cc_content cd))
         \<and> c_priority c = calculate_priority (c_sentiment_score c) 0
         \<and> map_of (Comment_dict c) ''needs_response''
             = Some (VBool (c_sentiment_score c < - 0.1 \<or> c_priority c \<ge> 3))"
    if "\<not> unavailable e InsertComment"
    by (intro exI conjI, rule create_comment_stored [OF that])
      (simp_all add: analyze_sentiment_fst Comment_dict_def)
  have mention: "\<exists>m. mentions (snd (create_mention e md w)) = mentions w @ [Mention_dict m]
         \<and> map_of (Mention_dict m) ''needs_response'' = None"
    if "\<not> unavailable e InsertMention"
  proof -
    from create_mention_stored [OF that, of md w] obtain m where
      "mentions (snd (create_mention e md w)) = mentions w @ [Mention_dict m]"
      by auto
    moreover have "map_of (Mention_dict m) ''needs_response'' = None"
      by (simp add: Mention_dict_def)
    ultimately show ?thesis by blast
  qed
  have post: "\<exists>p. posts (snd (create_post e pd w)) = posts w @ [Post_dict p]
         \<and> map_of (Post_dict p) ''needs_response'' = None"
    if "\<not> unavailable e InsertPost"
  proof -
    from create_post_stored [OF that, of pd w] obtain p where
      "posts (snd (create_post e pd w)) = posts w @ [Post_dict p]"
      by auto
    moreover have "map_of (Post_dict p) ''needs_response'' = None"
      by (simp add: Post_dict_def)
    ultimately show ?thesis by blast
  qed
  from comment mention post show ?thesis by blast
qed

theorem needs_response_flag_witness:
  "\<not> unavailable example_env InsertComment
   \<and> (\<exists>c. comments (snd (create_comment example_env example_comment_data (example_world [])))
            = [Comment_dict c]
          \<and> c_priority c = 5
          \<and> map_of (Comment_dict c) ''needs_response'' = Some (VBool True))
   \<and> \<not> unavailable example_env InsertMention
   \<and> (\<exists>m. mentions (snd (create_mention example_env example_mention_data (example_world [])))
            = [Mention_dict m]
          \<and> map_of (Mention_dict m) ''needs_response'' = None)
   \<and> \<not> unavailable example_env InsertPost
   \<and> (\<exists>p. posts (snd (create_post example_env example_post_data (example_world [])))
            = [Post_dict p]
          \<and> map_of (Post_dict p) ''needs_response'' = None)"
proof -
  note flag = needs_response_flag
      [of example_env example_comment_data "example_world []" example_mention_data
        example_post_data]
  have score: "fst (analyze_sentiment example_env (cc_content example_comment_data)) = - 0.6"
    by (simp add: analyze_sentiment_fst example_env_def)
  have prio: "calculate_priority (- 0.6) 0 = 5"
    by (simp add: calculate_priority_cases)
  from flag obtain c where c:
    "comments (snd (create_comment example_env example_comment_data (example_world [])))
       = comments (example_world []) @ [Comment_dict c]"
    "c_sentiment_score c = - 0.6"
    "c_priority c = calculate_priority (c_sentiment_score c) 0"
    "map_of (Comment_dict c) ''needs_response''
       = Some (VBool (c_sentiment_score c < - 0.1 \<or> c_priority c \<ge> 3))"
    unfolding score using example_env_available by blast
  from flag obtain m where m:
    "mentions (snd (create_mention example_env example_mention_data (example_world [])))
       = mentions (example_world []) @ [Mention_dict m]"
    "map_of (Mention_dict m) ''needs_response'' = None"
    using example_env_available by blast
  from flag obtain p where p:
    "posts (snd (create_post example_env example_post_data (example_world [])))
       = posts (example_world []) @ [Post_dict p]"
    "map_of (Post_dict p) ''needs_response'' = None"
    using example_env_available by blast
  have c5: "c_priority c = 5"
    using c(2,3) prio by simp
  have cflag: "map_of (Comment_dict c) ''needs_response'' = Some (VBool True)"
    using c(2,4) c5 by simp
  have cs: "comments (snd (create_comment example_env example_comment_data (example_world [])))
       = [Comment_dict c]"
    using c(1) by (simp add: example_world_def)
  have ms: "mentions (snd (create_mention example_env example_mention_data (example_world [])))
       = [Mention_dict m]"
    using m(1) by (simp add: example_world_def)
  have ps: "posts (snd (create_post example_env example_post_data (example_world [])))
       = [Post_dict p]"
    using p(1) by (simp add: example_world_def)
  from cs c5 cflag ms m(2) ps p(2) example_env_available show ?thesis
    by blast
qed

text \<open>
  C10. The comment path calls the scorer with engagement 0: the stored priority is
  \<^verbatim>\<open>calculate_priority(score, 0)\<close>, one of 0, 1, 3 and 5 (never 2 or 4), and the
  stored flag \<open>needs_response\<close> is true exactly when the score is at most -0.1.
\<close>

theorem create_comment_default_engagement:
  assumes "\<not> unavailable e InsertComment"
  shows "\<exists>c. comments (snd (create_comment e cd w)) = comments w @ [Comment_dict c]
     \<and> c_sentiment_score c = fst (analyze_sentiment e (cc_content cd))
     \<and> c_priority c = calculate_priority (c_sentiment_score c) 0
     \<and> (c_priority c = 0 \<or> c_priority c = 1 \<or> c_priority c = 3 \<or> c_priority c = 5)
     \<and> c_priority c \<noteq> 2 \<and> c_priority c \<noteq> 4
     \<and> (c_needs_response c \<longleftrightarrow> c_sentiment_score c \<le> - 0.1)
     \<and> map_of (Comment_dict c) ''priority'' = Some (VInt (c_priority c))
     \<and> map_of (Comment_dict c) ''needs_response'' = Some (VBool (c_needs_response c))"
proof -
  have p: "calculate_priority s 0 = 0 \<or> calculate_priority s 0 = 1
           \<or> calculate_priority s 0 = 3 \<or> calculate_priority s 0 = 5" for s
    by (simp add: calculate_priority_cases)
  have n: "(s < - 0.1 \<or> calculate_priority s 0 \<ge> 3) \<longleftrightarrow> s \<le> - 0.1" for s
    by (simp add: calculate_priority_cases)
  have q: "calculate_priority s 0 \<noteq> 2 \<and> calculate_priority s 0 \<noteq> 4" for s
    by (simp add: calculate_priority_cases)
  show ?thesis
    apply (intro exI conjI)
            apply (rule create_comment_stored [OF assms])
    using p [of "compound e (cc_content cd)"] n [of "compound e (cc_content cd)"]
      q [of "compound e (cc_content cd)"]
    by (simp_all add: analyze_sentiment_fst Comment_dict_def)
qed

theorem create_comment_default_engagement_witness:
  "\<not> unavailable example_env InsertComment
   \<and> (\<exists>c. comments (snd (create_comment example_env example_comment_data (example_world [])))
            = [Comment_dict c]
          \<and> c_sentiment_score c = - 0.6 \<and> c_priority c = 5 \<and> c_needs_response c)"
proof -
  have score: "fst (analyze_sentiment example_env (cc_content example_comment_data)) = - 0.6"
    by (simp add: analyze_sentiment_fst example_env_def)
  have prio: "calculate_priority (- 0.6) 0 = 5"
    by (simp add: calculate_priority_cases)
  from create_comment_default_engagement
      [OF example_env_available, of example_comment_data "example_world []"]
  obtain c where c:
    "comments (snd (create_comment example_env example_comment_data (example_world [])))
       = comments (example_world []) @ [Comment_dict c]"
    "c_sentiment_score c = - 0.6"
    "c_priority c = calculate_priority (c_sentiment_score c) 0"
    "c_needs_response c \<longleftrightarrow> c_sentiment_score c \<le> - 0.1"
    unfolding score by blast
  have c5: "c_priority c = 5"
    using c(2,3) prio by simp
  have cn: "c_needs_response c"
    using c(2,4) by simp
  have cs: "comments (snd (create_comment example_env example_comment_data (example_world [])))
       = [Comment_dict c]"
    using c(1) by (simp add: example_world_def)
  from cs c(2) c5 cn example_env_available show ?thesis
    by blast
qed

end
